theory Spec2Isabelle
  imports Main "HOL-Library.Multiset"
begin

section \<open>Data model\<close>

text \<open>
  The two SQLModel tables used by \<^verbatim>\<open>backend/main.py\<close>. A row is a record; a column
  that may be unset (the primary key before the store assigns it, an omitted title, a
  foreign key) is an \<open>option\<close>. Timestamps are integers (ticks of the clock).
\<close>

record Conversation =
  conv_id :: "int option"
  title :: "string option"

record Message =
  msg_id :: "int option"
  conversation_id :: "int option"
  role :: string
  content :: string
  created_at :: int

text \<open>The database behind the session: both tables, each in insertion order.\<close>

record store =
  conversations :: "Conversation list"
  messages :: "Message list"

text \<open>
  What a handler can raise: \<^verbatim>\<open>HTTPException(status_code, detail)\<close>, or the
  store's \<^verbatim>\<open>IntegrityError\<close> when a commit is refused.
\<close>

datatype error = HTTPException nat string | IntegrityError

text \<open>
  A handler runs against the store and leaves a store behind whether it returns or
  raises: commits made before a raise stay.
\<close>

type_synonym 'a handler = "store \<Rightarrow> (error + 'a) \<times> store"

section \<open>Python values\<close>

definition digit_char :: "nat \<Rightarrow> char" where
  "digit_char d = ''0123456789'' ! d"

function str_nat :: "nat \<Rightarrow> string" where
  "str_nat n = (if n < 10 then [digit_char n] else str_nat (n div 10) @ [digit_char (n mod 10)])"
  by pat_completeness auto
termination
  by (relation "measure (\<lambda>n. n)") auto

declare str_nat.simps [simp del]

text \<open>\<^verbatim>\<open>str(i)\<close> for a Python int.\<close>

definition str_int :: "int \<Rightarrow> string" where
  "str_int i = (if i < 0 then CHR ''-'' # str_nat (nat (- i)) else str_nat (nat i))"

text \<open>What an f-string prints for an id that may still be \<^verbatim>\<open>None\<close>.\<close>

definition format_id :: "int option \<Rightarrow> string" where
  "format_id i = (case i of None \<Rightarrow> ''None'' | Some n \<Rightarrow> str_int n)"

text \<open>
  Reading a decimal numeral, the way back from \<^verbatim>\<open>str\<close>: the digits one by one,
  most significant first. Only the canonical numeral of a number is read: no leading
  zero, no sign but a single minus, no minus zero. It is written without reference to
  \<open>str_int\<close>, so that a rendering can be checked against it.
\<close>

definition digit_value :: "char \<Rightarrow> nat option" where
  "digit_value c =
     map_of [(CHR ''0'', 0), (CHR ''1'', 1), (CHR ''2'', 2), (CHR ''3'', 3), (CHR ''4'', 4),
             (CHR ''5'', 5), (CHR ''6'', 6), (CHR ''7'', 7), (CHR ''8'', 8), (CHR ''9'', 9)] c"

fun read_digits :: "nat \<Rightarrow> string \<Rightarrow> nat option" where
  "read_digits acc [] = Some acc"
| "read_digits acc (c # cs) =
     (case digit_value c of None \<Rightarrow> None | Some d \<Rightarrow> read_digits (10 * acc + d) cs)"

definition read_nat :: "string \<Rightarrow> nat option" where
  "read_nat ds =
     (case ds of
        [] \<Rightarrow> None
      | c # cs \<Rightarrow> if c = CHR ''0'' \<and> cs \<noteq> [] then None else read_digits 0 ds)"

definition read_int :: "string \<Rightarrow> int option" where
  "read_int ds =
     (case ds of
        [] \<Rightarrow> None
      | c # cs \<Rightarrow>
          if c = CHR ''-'' then
            (case read_nat cs of
               None \<Rightarrow> None
             | Some n \<Rightarrow> if n = 0 then None else Some (- int n))
          else map_option int (read_nat ds))"

text \<open>Truthiness of an optional string: \<^verbatim>\<open>None\<close> and \<^verbatim>\<open>""\<close> are false.\<close>

definition truthy :: "string option \<Rightarrow> bool" where
  "truthy t = (case t of None \<Rightarrow> False | Some v \<Rightarrow> v \<noteq> [])"

section \<open>The session\<close>

text \<open>
  Modelled from the spec: the persistence layer (\<^verbatim>\<open>database.py\<close>, \<^verbatim>\<open>models.py\<close>
  and the ORM) is not part of the handler file. Its data model says an id is a
  "unique identifier, assigned by the store on creation"; here the store assigns one
  more than the largest id in the table (and at least 1).
\<close>

definition fresh_id :: "int option list \<Rightarrow> int" where
  "fresh_id ids = 1 + fold (\<lambda>i acc. case i of None \<Rightarrow> acc | Some n \<Rightarrow> max n acc) ids 0"

text \<open>\<^verbatim>\<open>session.get(Conversation, conversation_id)\<close>: the row with that key, or \<^verbatim>\<open>None\<close>.\<close>

definition session_get :: "store \<Rightarrow> int \<Rightarrow> Conversation option" where
  "session_get s conversation_id' = find (\<lambda>c. conv_id c = Some conversation_id') (conversations s)"

text \<open>
  \<^verbatim>\<open>session.add(x); session.commit(); session.refresh(x)\<close> for a new object: an
  INSERT. The handlers take the whole table row as the request body, so a body may
  bring a key of its own. A row without a key gets a fresh one; a row whose key is
  already in the table violates the primary key: the commit raises, nothing is written
  (the spec's "store failure"). The refreshed row is returned.
\<close>

definition add_conversation :: "Conversation \<Rightarrow> Conversation handler" where
  "add_conversation c s =
     (case conv_id c of
        None \<Rightarrow>
          (let c' = c\<lparr>conv_id := Some (fresh_id (map conv_id (conversations s)))\<rparr>
           in (Inr c', s\<lparr>conversations := conversations s @ [c']\<rparr>))
      | Some i \<Rightarrow>
          if Some i \<in> set (map conv_id (conversations s)) then (Inl IntegrityError, s)
          else (Inr c, s\<lparr>conversations := conversations s @ [c]\<rparr>))"

definition add_message :: "Message \<Rightarrow> Message handler" where
  "add_message m s =
     (case msg_id m of
        None \<Rightarrow>
          (let m' = m\<lparr>msg_id := Some (fresh_id (map msg_id (messages s)))\<rparr>
           in (Inr m', s\<lparr>messages := messages s @ [m']\<rparr>))
      | Some i \<Rightarrow>
          if Some i \<in> set (map msg_id (messages s)) then (Inl IntegrityError, s)
          else (Inr m, s\<lparr>messages := messages s @ [m]\<rparr>))"

text \<open>The same three calls for an object that is already a row: an UPDATE by key.\<close>

definition update_conversation :: "Conversation \<Rightarrow> store \<Rightarrow> store" where
  "update_conversation c s =
     s\<lparr>conversations := map (\<lambda>r. if conv_id r = conv_id c then c else r) (conversations s)\<rparr>"

text \<open>
  \<^verbatim>\<open>select(Conversation).offset(offset).limit(limit)\<close>, in the table's order. The
  handler validates neither number; a negative offset skips nothing and a negative
  limit does not limit.
\<close>

definition offset_limit :: "int \<Rightarrow> int \<Rightarrow> 'a list \<Rightarrow> 'a list" where
  "offset_limit off lim xs =
     (let ys = (if off < 0 then xs else drop (nat off) xs)
      in if lim < 0 then ys else take (nat lim) ys)"

text \<open>
  \<^verbatim>\<open>select(Message).where(Message.conversation_id == conversation_id)\<close>: the
  conversation's rows, in the order they were inserted.
\<close>

definition where_conversation :: "int \<Rightarrow> Message list \<Rightarrow> Message list" where
  "where_conversation conversation_id' ms = filter (\<lambda>m. conversation_id m = Some conversation_id') ms"

text \<open>
  \<^verbatim>\<open>.order_by(Message.created_at)\<close>: ascending. Rows with equal timestamps keep
  their table order here; SQL promises nothing about them.
\<close>

definition order_by_created_at :: "Message list \<Rightarrow> Message list" where
  "order_by_created_at ms = sort_key created_at ms"

definition select_history :: "int \<Rightarrow> store \<Rightarrow> Message list" where
  "select_history conversation_id' s = order_by_created_at (where_conversation conversation_id' (messages s))"

text \<open>
  Modelled from the spec: what \<^verbatim>\<open>session.delete(conversation)\<close> does to the
  messages of the conversation is the store's cascade policy, declared in the absent
  \<^verbatim>\<open>models.py\<close> ("implementation-defined cascade policy must be specified by the
  store layer"). The policy is a parameter: it maps the deleted key and the message
  table to the message table after the commit.
\<close>

type_synonym cascade = "int \<Rightarrow> Message list \<Rightarrow> Message list"

definition no_cascade :: cascade where
  "no_cascade conversation_id' ms = ms"

definition cascade_delete :: cascade where
  "cascade_delete conversation_id' ms = filter (\<lambda>m. conversation_id m \<noteq> Some conversation_id') ms"


definition session_delete :: "cascade \<Rightarrow> int \<Rightarrow> store \<Rightarrow> store" where
  "session_delete policy conversation_id' s =
     \<lparr>conversations = filter (\<lambda>c. conv_id c \<noteq> Some conversation_id') (conversations s),
      messages = policy conversation_id' (messages s)\<rparr>"

section \<open>The LLM client\<close>

text \<open>
  One chat-completion request: the model name and the list of
  \<^verbatim>\<open>{"role": ..., "content": ...}\<close> dicts, each dict an association list.
\<close>

record chat_request =
  model :: string
  chat_messages :: "(string \<times> string) list list"

text \<open>
  What reading the content out of a response does: the access raises, or it gives the
  value it finds, which is a \<^verbatim>\<open>str\<close> or \<^verbatim>\<open>None\<close> (the content of a completion
  message is optional).
\<close>

datatype lookup = Fails | Gives "string option"

text \<open>
  The response object, seen through the three ways the handler reads it:
  \<^verbatim>\<open>resp.choices[0].message.content\<close>, \<^verbatim>\<open>resp["choices"][0]["message"]["content"]\<close>
  and \<^verbatim>\<open>str(resp)\<close>.
\<close>

record completion =
  by_attribute :: lookup
  by_item :: lookup
  as_str :: string

text \<open>
  Lines 137 to 140, the client built and called: it returns a response or raises an
  exception \<open>e\<close> (an \<^verbatim>\<open>Exception\<close>, which is what line 150 catches), kept as
  \<^verbatim>\<open>str(e)\<close>.
\<close>

datatype llm_outcome = Returned completion | Raised string

type_synonym llm_client = "chat_request \<Rightarrow> llm_outcome"

section \<open>Handlers\<close>

definition not_found :: error where
  "not_found = HTTPException 404 ''Conversation not found''"

definition create_conversation :: "Conversation \<Rightarrow> Conversation handler" where
  "create_conversation conversation s =
     (case add_conversation conversation s of
        (Inl e, s1) \<Rightarrow> (Inl e, s1)
      | (Inr conversation1, s1) \<Rightarrow>
          if \<not> truthy (title conversation1) then
            (let conversation2 =
                   conversation1\<lparr>title := Some (''Conversation '' @ format_id (conv_id conversation1))\<rparr>
             in (Inr conversation2, update_conversation conversation2 s1))
          else (Inr conversation1, s1))"

text \<open>The query parameters are \<open>None\<close> when the request does not carry them.\<close>

definition read_conversations :: "int option \<Rightarrow> int option \<Rightarrow> Conversation list handler" where
  "read_conversations offset limit s =
     (let off = (case offset of None \<Rightarrow> 0 | Some v \<Rightarrow> v);
          lim = (case limit of None \<Rightarrow> 100 | Some v \<Rightarrow> v)
      in (Inr (offset_limit off lim (conversations s)), s))"

definition read_conversation :: "int \<Rightarrow> Conversation handler" where
  "read_conversation conversation_id' s =
     (case session_get s conversation_id' of
        None \<Rightarrow> (Inl not_found, s)
      | Some conversation \<Rightarrow> (Inr conversation, s))"

definition delete_conversation :: "cascade \<Rightarrow> int \<Rightarrow> (string \<times> bool) list handler" where
  "delete_conversation policy conversation_id' s =
     (case session_get s conversation_id' of
        None \<Rightarrow> (Inl not_found, s)
      | Some conversation \<Rightarrow> (Inr [(''ok'', True)], session_delete policy conversation_id' s))"

definition read_conversation_messages :: "int \<Rightarrow> Message list handler" where
  "read_conversation_messages conversation_id' s =
     (case session_get s conversation_id' of
        None \<Rightarrow> (Inl not_found, s)
      | Some conversation \<Rightarrow> (Inr (select_history conversation_id' s), s))"

text \<open>Lines 124 to 127: one dict per history row.\<close>

definition llm_role :: "Message \<Rightarrow> string" where
  "llm_role m = (if role m \<in> {''user'', ''assistant''} then role m else ''user'')"

definition llm_entry :: "Message \<Rightarrow> (string \<times> string) list" where
  "llm_entry m = [(''role'', llm_role m), (''content'', content m)]"

text \<open>
  Lines 143 to 149: the nested \<^verbatim>\<open>try\<close> that reads the reply out of the response.
  Only an exception moves on to the next way of reading; a value that is read is taken,
  \<^verbatim>\<open>None\<close> included. The result is \<^verbatim>\<open>assistant_text\<close>: a \<^verbatim>\<open>str\<close> or \<^verbatim>\<open>None\<close>.
\<close>

definition extract_text :: "completion \<Rightarrow> string option" where
  "extract_text resp =
     (case by_attribute resp of
        Gives v \<Rightarrow> v
      | Fails \<Rightarrow> (case by_item resp of Gives v \<Rightarrow> v | Fails \<Rightarrow> Some (as_str resp)))"

text \<open>
  Lines 132 to 153. \<open>API_KEY\<close> is the module-level value read from the environment
  when the process starts; \<^verbatim>\<open>openai\<close> is imported at the top of the module, so
  \<^verbatim>\<open>openai is not None\<close> holds and the test is the truthiness of the key. The result
  is the assistant text and the requests that went to the client.
\<close>

definition call_llm ::
  "string option \<Rightarrow> llm_client \<Rightarrow> (string \<times> string) list list \<Rightarrow> string option \<times> chat_request list" where
  "call_llm API_KEY client llm_messages =
     (if truthy API_KEY then
        (let request = \<lparr>model = ''gemma3'', chat_messages = llm_messages\<rparr>
         in (case client request of
               Returned resp \<Rightarrow> (extract_text resp, [request])
             | Raised e \<Rightarrow> (Some (''[LLM error] '' @ e), [request])))
      else (Some ''[LLM not configured]'', []))"

text \<open>
  The dict the handler returns, \<^verbatim>\<open>{"user": message, "assistant": assistant_msg}\<close>: two
  ORM objects. An object is bound to its row. \<^verbatim>\<open>session.commit()\<close> expires every
  object of the session: its attributes are unloaded until it is refreshed.
  \<open>user\<close> and \<open>assistant\<close> are the rows the two objects are bound to; the flags say
  whether the object is expired when the handler returns.
\<close>

record response =
  user :: Message
  assistant :: Message
  user_expired :: bool
  assistant_expired :: bool

text \<open>
  What the route sends. It declares no \<^verbatim>\<open>response_model\<close>, so each object is
  serialised from the attributes it has loaded: the fields of its row, or nothing
  (\<^verbatim>\<open>{}\<close>, here \<open>None\<close>) for an expired object.
\<close>

definition sent :: "response \<Rightarrow> (string \<times> Message option) list" where
  "sent r =
     [(''user'', if user_expired r then None else Some (user r)),
      (''assistant'', if assistant_expired r then None else Some (assistant r))]"

text \<open>
  \<open>message\<close> is the request body as the handler receives it. \<open>now\<close> is the
  timestamp the assistant's \<^verbatim>\<open>Message(...)\<close> gets when it is built on line 156
  (Modelled from the spec: \<^verbatim>\<open>created_at\<close> is assigned at creation; its default
  lives in the absent \<^verbatim>\<open>models.py\<close>). The third component of the result lists the
  requests made to the LLM client.

  An \<^verbatim>\<open>assistant_text\<close> of \<^verbatim>\<open>None\<close> gives a \<^verbatim>\<open>Message\<close> without content, which
  the table refuses: the commit on line 158 raises, and the user row committed on
  line 116 stays.

  The commit on line 116 expires \<^verbatim>\<open>message\<close> and line 117 refreshes it; the commit
  on line 158 expires both objects and line 159 refreshes \<^verbatim>\<open>assistant_msg\<close> only.
\<close>

definition create_message ::
  "string option \<Rightarrow> llm_client \<Rightarrow> int \<Rightarrow> int \<Rightarrow> Message \<Rightarrow> store \<Rightarrow> (error + response) \<times> store \<times> chat_request list" where
  "create_message API_KEY client now conversation_id' message s =
     (case session_get s conversation_id' of
        None \<Rightarrow> (Inl not_found, s, [])
      | Some conversation \<Rightarrow>
          (case add_message (message\<lparr>conversation_id := Some conversation_id'\<rparr>) s of
             (Inl e, s1) \<Rightarrow> (Inl e, s1, [])
           | (Inr message1, s1) \<Rightarrow>
               (let history = select_history conversation_id' s1;
                    llm_messages = map llm_entry history;
                    (assistant_text, requests) = call_llm API_KEY client llm_messages
                in (case assistant_text of
                      None \<Rightarrow> (Inl IntegrityError, s1, requests)
                    | Some text \<Rightarrow>
                        (let assistant_msg = \<lparr>msg_id = None, conversation_id = Some conversation_id',
                                              role = ''assistant'', content = text, created_at = now\<rparr>
                         in (case add_message assistant_msg s1 of
                               (Inl e, s2) \<Rightarrow> (Inl e, s2, requests)
                             | (Inr assistant_msg1, s2) \<Rightarrow>
                                 (Inr \<lparr>user = message1, assistant = assistant_msg1,
                                       user_expired = True, assistant_expired = False\<rparr>,
                                  s2, requests)))))))"

section \<open>Histories of the store\<close>



section \<open>Sample data\<close>

text \<open>
  Stores, request bodies and a response used to run the handlers on concrete inputs.
\<close>

definition demo_store :: store where
  "demo_store = \<lparr>conversations = [\<lparr>conv_id = Some 1, title = Some ''Trip''\<rparr>], messages = []\<rparr>"

definition demo_history :: store where
  "demo_history = \<lparr>conversations = [\<lparr>conv_id = Some 1, title = Some ''Trip''\<rparr>],
     messages = [\<lparr>msg_id = Some 1, conversation_id = Some 1, role = ''user'', content = ''Hi'', created_at = 3\<rparr>,
                 \<lparr>msg_id = Some 2, conversation_id = Some 1, role = ''assistant'', content = ''Hello'', created_at = 4\<rparr>,
                 \<lparr>msg_id = Some 3, conversation_id = Some 2, role = ''user'', content = ''Other'', created_at = 5\<rparr>]\<rparr>"

definition demo_message :: Message where
  "demo_message = \<lparr>msg_id = None, conversation_id = Some 99, role = ''system'', content = ''Hi'',
                    created_at = 10\<rparr>"

definition demo_next :: Message where
  "demo_next = \<lparr>msg_id = None, conversation_id = None, role = ''user'', content = ''Again'',
                 created_at = 20\<rparr>"

definition demo_completion :: completion where
  "demo_completion = \<lparr>by_attribute = Fails, by_item = Gives (Some ''Hello''), as_str = ''{...}''\<rparr>"

definition demo_no_content :: completion where
  "demo_no_content = \<lparr>by_attribute = Gives None, by_item = Gives (Some ''Hello''), as_str = ''{...}''\<rparr>"

definition demo_busy :: store where
  "demo_busy = \<lparr>conversations = [\<lparr>conv_id = Some 9, title = Some ''Nine''\<rparr>,
                                   \<lparr>conv_id = Some 1204, title = Some ''Old''\<rparr>],
                 messages = []\<rparr>"


section \<open>Facts about the session and the handlers\<close>

lemmas demo_defs = demo_store_def demo_message_def demo_completion_def demo_history_def
  demo_next_def demo_no_content_def demo_busy_def

lemmas handler_defs = create_message_def session_get_def add_message_def select_history_def
  where_conversation_def order_by_created_at_def call_llm_def truthy_def fresh_id_def
  llm_entry_def llm_role_def extract_text_def not_found_def

lemma session_get_None: "Some cid \<notin> conv_id ` set (conversations s) \<Longrightarrow> session_get s cid = None"
  by (force simp: session_get_def find_None_iff)

lemma session_get_Some:
  assumes "Some cid \<in> conv_id ` set (conversations s)"
  shows "\<exists>c. session_get s cid = Some c"
proof (cases "session_get s cid")
  case None
  with assms show ?thesis
    by (force simp: session_get_def find_None_iff)
next
  case (Some c)
  then show ?thesis by simp
qed


lemma session_get_deleted: "session_get (session_delete policy cid s) cid = None"
  by (simp add: session_get_def session_delete_def find_None_iff)

lemma fold_max_bounds:
  "(acc::int) \<le> fold (\<lambda>i acc. case i of None \<Rightarrow> acc | Some n \<Rightarrow> max n acc) ids acc \<and>
   (\<forall>n. Some n \<in> set ids \<longrightarrow>
      n \<le> fold (\<lambda>i acc. case i of None \<Rightarrow> acc | Some n \<Rightarrow> max n acc) ids acc)"
proof (induction ids arbitrary: acc)
  case Nil
  then show ?case by simp
next
  case (Cons i ids)
  show ?case
  proof (cases i)
    case None
    with Cons.IH [of acc] show ?thesis by simp
  next
    case (Some k)
    with Cons.IH [of "max k acc"] show ?thesis by auto
  qed
qed

lemma fresh_id_unused: "Some (fresh_id ids) \<notin> set ids"
proof
  assume "Some (fresh_id ids) \<in> set ids"
  with fold_max_bounds [of 0 ids] have "fresh_id ids \<le> fresh_id ids - 1"
    unfolding fresh_id_def by fastforce
  then show False by simp
qed

lemma add_message_Inr:
  assumes "add_message m s = (Inr m', s')"
  shows "\<exists>i. m' = m\<lparr>msg_id := Some i\<rparr> \<and> s' = s\<lparr>messages := messages s @ [m']\<rparr>"
  using assms by (cases m) (auto simp: add_message_def Let_def split: option.splits if_splits)

lemma add_message_Inl:
  assumes "add_message m s = (Inl e, s')"
  shows "e = IntegrityError \<and> s' = s"
  using assms by (auto simp: add_message_def Let_def split: option.splits if_splits)

lemma add_message_fresh:
  assumes "msg_id m = None"
  shows "add_message m s =
    (Inr (m\<lparr>msg_id := Some (fresh_id (map msg_id (messages s)))\<rparr>),
     s\<lparr>messages := messages s @ [m\<lparr>msg_id := Some (fresh_id (map msg_id (messages s)))\<rparr>]\<rparr>)"
  using assms by (simp add: add_message_def Let_def)

lemma add_conversation_Inr:
  assumes "add_conversation c s = (Inr c1, s1)"
  shows "\<exists>i. conv_id c1 = Some i \<and> title c1 = title c \<and>
             Some i \<notin> conv_id ` set (conversations s) \<and>
             s1 = s\<lparr>conversations := conversations s @ [c1]\<rparr>"
proof (cases "conv_id c")
  case None
  with assms fresh_id_unused [of "map conv_id (conversations s)"] show ?thesis
    by (auto simp: add_conversation_def Let_def)
next
  case (Some i)
  with assms show ?thesis
    by (auto simp: add_conversation_def split: if_splits)
qed

lemma update_last_row:
  assumes "Some i \<notin> conv_id ` set rows" and "conv_id c1 = Some i"
  shows "map (\<lambda>r. if conv_id r = Some i then c2 else r) (rows @ [c1]) = rows @ [c2]"
proof -
  from assms(1) have "map (\<lambda>r. if conv_id r = Some i then c2 else r) rows = rows"
    by (induction rows) auto
  with assms(2) show ?thesis by simp
qed

lemma call_llm_cases:
  assumes "call_llm API_KEY client msgs = (a, requests)"
  shows "(\<not> truthy API_KEY \<and> a = Some ''[LLM not configured]'' \<and> requests = []) \<or>
         (truthy API_KEY \<and> requests = [\<lparr>model = ''gemma3'', chat_messages = msgs\<rparr>] \<and>
          a = (case client \<lparr>model = ''gemma3'', chat_messages = msgs\<rparr> of
                 Returned resp \<Rightarrow> extract_text resp | Raised e \<Rightarrow> Some (''[LLM error] '' @ e)))"
  using assms by (auto simp: call_llm_def Let_def split: if_splits llm_outcome.splits)

lemma create_message_result:
  assumes "create_message API_KEY client now cid message s = (res, s', requests)"
  shows "(session_get s cid = None \<and> res = Inl not_found \<and> s' = s \<and> requests = []) \<or>
         (\<exists>c. session_get s cid = Some c \<and>
              add_message (message\<lparr>conversation_id := Some cid\<rparr>) s = (Inl IntegrityError, s) \<and>
              res = Inl IntegrityError \<and> s' = s \<and> requests = []) \<or>
         (\<exists>c u s1.
            session_get s cid = Some c \<and>
            add_message (message\<lparr>conversation_id := Some cid\<rparr>) s = (Inr u, s1) \<and>
            call_llm API_KEY client (map llm_entry (select_history cid s1)) = (None, requests) \<and>
            res = Inl IntegrityError \<and> s' = s1) \<or>
         (\<exists>c u s1 text.
            session_get s cid = Some c \<and>
            add_message (message\<lparr>conversation_id := Some cid\<rparr>) s = (Inr u, s1) \<and>
            call_llm API_KEY client (map llm_entry (select_history cid s1)) = (Some text, requests) \<and>
            res = Inr \<lparr>user = u,
                       assistant = \<lparr>msg_id = Some (fresh_id (map msg_id (messages s1))),
                                    conversation_id = Some cid, role = ''assistant'', content = text,
                                    created_at = now\<rparr>,
                       user_expired = True, assistant_expired = False\<rparr> \<and>
            s' = s1\<lparr>messages := messages s1 @
                   [\<lparr>msg_id = Some (fresh_id (map msg_id (messages s1))), conversation_id = Some cid,
                     role = ''assistant'', content = text, created_at = now\<rparr>]\<rparr>)"
proof (cases "session_get s cid")
  case None
  with assms show ?thesis by (simp add: create_message_def)
next
  case (Some c)
  obtain ru s1 where u: "add_message (message\<lparr>conversation_id := Some cid\<rparr>) s = (ru, s1)"
    by (cases "add_message (message\<lparr>conversation_id := Some cid\<rparr>) s")
  show ?thesis
  proof (cases ru)
    case (Inl e)
    with u add_message_Inl have "e = IntegrityError" "s1 = s" by blast+
    with assms Some u Inl show ?thesis by (simp add: create_message_def)
  next
    case (Inr m)
    obtain a q where l: "call_llm API_KEY client (map llm_entry (select_history cid s1)) = (a, q)"
      by (cases "call_llm API_KEY client (map llm_entry (select_history cid s1))")
    show ?thesis
    proof (cases a)
      case None
      with assms Some u Inr l show ?thesis
        by (simp add: create_message_def Let_def)
    next
      case (Some reply)
      with assms \<open>session_get s cid = Some c\<close> u Inr l show ?thesis
        by (simp add: create_message_def add_message_fresh Let_def)
    qed
  qed
qed

lemma create_message_Inr:
  assumes "create_message API_KEY client now cid message s = (Inr r, s', requests)"
  shows "\<exists>c s1 text.
     session_get s cid = Some c \<and>
     add_message (message\<lparr>conversation_id := Some cid\<rparr>) s = (Inr (user r), s1) \<and>
     call_llm API_KEY client (map llm_entry (select_history cid s1)) = (Some text, requests) \<and>
     add_message \<lparr>msg_id = None, conversation_id = Some cid, role = ''assistant'',
                  content = text, created_at = now\<rparr> s1 = (Inr (assistant r), s') \<and>
     user_expired r \<and> \<not> assistant_expired r"
  using create_message_result [OF assms]
  by (auto simp: add_message_fresh)

lemma create_message_requests:
  assumes "create_message API_KEY client now cid message s = (res, s', requests)"
      and "req \<in> set requests"
  shows "\<exists>u s1 a.
     add_message (message\<lparr>conversation_id := Some cid\<rparr>) s = (Inr u, s1) \<and>
     messages s1 = messages s @ [u] \<and>
     role u = role message \<and> content u = content message \<and>
     call_llm API_KEY client (map llm_entry (select_history cid s1)) = (a, requests) \<and>
     (case a of
        None \<Rightarrow> res = Inl IntegrityError \<and> s' = s1
      | Some text \<Rightarrow>
          (\<exists>r. res = Inr r \<and> user r = u \<and> role (assistant r) = ''assistant'' \<and>
                content (assistant r) = text \<and>
                messages s' = messages s @ [user r, assistant r]))"
proof -
  from create_message_result [OF assms(1)] assms(2) consider
    (silent) u s1 where
      "add_message (message\<lparr>conversation_id := Some cid\<rparr>) s = (Inr u, s1)"
      "call_llm API_KEY client (map llm_entry (select_history cid s1)) = (None, requests)"
      "res = Inl IntegrityError" "s' = s1"
  | (spoken) u s1 reply where
      "add_message (message\<lparr>conversation_id := Some cid\<rparr>) s = (Inr u, s1)"
      "call_llm API_KEY client (map llm_entry (select_history cid s1)) = (Some reply, requests)"
      "res = Inr \<lparr>user = u,
                       assistant = \<lparr>msg_id = Some (fresh_id (map msg_id (messages s1))),
                                    conversation_id = Some cid, role = ''assistant'', content = reply,
                                    created_at = now\<rparr>,
                       user_expired = True, assistant_expired = False\<rparr>"
      "s' = s1\<lparr>messages := messages s1 @
                   [\<lparr>msg_id = Some (fresh_id (map msg_id (messages s1))), conversation_id = Some cid,
                     role = ''assistant'', content = reply, created_at = now\<rparr>]\<rparr>"
    by (elim disjE exE conjE) auto
  then show ?thesis
  proof cases
    case silent
    from add_message_Inr [OF silent(1)] have "messages s1 = messages s @ [u]"
      "role u = role message" "content u = content message"
      by auto
    with silent show ?thesis by auto
  next
    case spoken
    from add_message_Inr [OF spoken(1)] have "messages s1 = messages s @ [u]"
      "role u = role message" "content u = content message"
      by auto
    with spoken show ?thesis by auto
  qed
qed


lemma llm_entry_role:
  "map_of (llm_entry m) ''role'' =
     Some (if role m = ''user'' \<or> role m = ''assistant'' then role m else ''user'')"
  by (simp add: llm_entry_def llm_role_def)

lemma llm_entry_content: "map_of (llm_entry m) ''content'' = Some (content m)"
  by (simp add: llm_entry_def)

lemma set_select_history:
  "set (select_history cid s) = {m \<in> set (messages s). conversation_id m = Some cid}"
  by (simp add: select_history_def order_by_created_at_def where_conversation_def)




lemma digit_value_digit_char:
  assumes "n < 10"
  shows "digit_value (digit_char n) = Some n"
proof -
  from assms have "n = 9 \<or> n = 8 \<or> n = 7 \<or> n = 6 \<or> n = 5 \<or> n < 5"
    by arith
  moreover have "n < 5 \<Longrightarrow> n = 4 \<or> n = 3 \<or> n = 2 \<or> n = 1 \<or> n = 0"
    by arith
  ultimately have "n = 9 \<or> n = 8 \<or> n = 7 \<or> n = 6 \<or> n = 5 \<or>
                   n = 4 \<or> n = 3 \<or> n = 2 \<or> n = 1 \<or> n = 0"
    by blast
  then show ?thesis
    by (elim disjE) (simp_all add: digit_char_def digit_value_def)
qed

lemma digit_char_not_zero:
  assumes "0 < n" and "n < 10"
  shows "digit_char n \<noteq> CHR ''0''"
proof
  assume "digit_char n = CHR ''0''"
  then have "digit_value (digit_char n) = Some 0"
    by (simp add: digit_value_def)
  with digit_value_digit_char [OF assms(2)] assms(1) show False
    by simp
qed

lemma read_digits_append:
  "read_digits acc (xs @ [c]) =
     (case read_digits acc xs of
        None \<Rightarrow> None
      | Some v \<Rightarrow> (case digit_value c of None \<Rightarrow> None | Some d \<Rightarrow> Some (10 * v + d)))"
  by (induction xs arbitrary: acc) (auto split: option.splits)

lemma str_nat_small: "n < 10 \<Longrightarrow> str_nat n = [digit_char n]"
  by (simp add: str_nat.simps [of n])

lemma str_nat_large:
  "\<not> n < 10 \<Longrightarrow> str_nat n = str_nat (n div 10) @ [digit_char (n mod 10)]"
  by (simp add: str_nat.simps [of n])

lemma read_digits_str_nat: "read_digits 0 (str_nat n) = Some n"
proof (induction n rule: str_nat.induct)
  case (1 n)
  show ?case
  proof (cases "n < 10")
    case True
    then show ?thesis
      by (simp add: str_nat_small digit_value_digit_char)
  next
    case False
    then have "n mod 10 < 10" by simp
    from False 1 have "read_digits 0 (str_nat (n div 10)) = Some (n div 10)"
      by simp
    with False \<open>n mod 10 < 10\<close> show ?thesis
      by (simp add: str_nat_large read_digits_append digit_value_digit_char)
  qed
qed

lemma str_nat_head:
  "\<exists>c cs. str_nat n = c # cs \<and> digit_value c \<noteq> None \<and> (0 < n \<longrightarrow> c \<noteq> CHR ''0'')"
proof (induction n rule: str_nat.induct)
  case (1 n)
  show ?case
  proof (cases "n < 10")
    case True
    have "str_nat n = [digit_char n]"
      using True by (rule str_nat_small)
    moreover have "digit_value (digit_char n) \<noteq> None"
      using digit_value_digit_char [OF True] by simp
    moreover have "0 < n \<longrightarrow> digit_char n \<noteq> CHR ''0''"
      using digit_char_not_zero [OF _ True] by (intro impI)
    ultimately show ?thesis
      by (intro exI [of _ "digit_char n"] exI [of _ "[]"] conjI)
  next
    case False
    from 1 [OF False] obtain c cs where
      h: "str_nat (n div 10) = c # cs \<and> digit_value c \<noteq> None \<and>
          (0 < n div 10 \<longrightarrow> c \<noteq> CHR ''0'')"
      by (elim exE)
    from False have pos: "0 < n div 10" by simp
    from h have "str_nat n = c # (cs @ [digit_char (n mod 10)])"
      using str_nat_large [OF False] by simp
    moreover from h have "digit_value c \<noteq> None" by (elim conjE)
    moreover from h pos have "0 < n \<longrightarrow> c \<noteq> CHR ''0''" by (intro impI) (elim conjE impE)
    ultimately show ?thesis
      by (intro exI [of _ c] exI [of _ "cs @ [digit_char (n mod 10)]"] conjI)
  qed
qed

lemma str_nat_zero: "str_nat 0 = [digit_char 0]"
  by (simp add: str_nat_small)

lemma read_nat_str_nat: "read_nat (str_nat n) = Some n"
proof -
  from str_nat_head [of n] obtain c cs where
    h: "str_nat n = c # cs" and z: "0 < n \<longrightarrow> c \<noteq> CHR ''0''"
    by (elim exE conjE)
  have "\<not> (c = CHR ''0'' \<and> cs \<noteq> [])"
  proof (cases "n = 0")
    case True
    with h str_nat_zero have "cs = []" by simp
    then show ?thesis by simp
  next
    case False
    with z have "c \<noteq> CHR ''0''" by simp
    then show ?thesis by simp
  qed
  then have guard: "(c = CHR ''0'' \<and> cs \<noteq> []) = False"
    by simp
  have "read_nat (c # cs) = read_digits 0 (c # cs)"
    by (simp only: read_nat_def list.case guard if_False)
  with h read_digits_str_nat [of n] show ?thesis
    by simp
qed

lemma digit_value_minus: "digit_value (CHR ''-'') = None"
  by (simp add: digit_value_def)

lemma read_int_str_int: "read_int (str_int i) = Some i"
proof (cases "i < 0")
  case True
  then have nz: "nat (- i) \<noteq> 0" and neg: "- int (nat (- i)) = i" by simp_all
  from True have "str_int i = CHR ''-'' # str_nat (nat (- i))"
    by (simp add: str_int_def)
  then have "read_int (str_int i) =
      (case read_nat (str_nat (nat (- i))) of
         None \<Rightarrow> None
       | Some n \<Rightarrow> if n = 0 then None else Some (- int n))"
    unfolding read_int_def by simp
  with nz neg show ?thesis
    by (simp add: read_nat_str_nat)
next
  case False
  from str_nat_head [of "nat i"] obtain c cs where
    h: "str_nat (nat i) = c # cs" and d: "digit_value c \<noteq> None"
    by (elim exE conjE)
  from d digit_value_minus have "c \<noteq> CHR ''-''"
    by auto
  with False h have "read_int (str_int i) = map_option int (read_nat (str_nat (nat i)))"
    unfolding read_int_def str_int_def by simp
  with False show ?thesis
    by (simp add: read_nat_str_nat)
qed







section \<open>Posting a message appends two rows\<close>

text \<open>
  C1. Whenever \<open>create_message\<close> returns a response, the conversation exists and the
  message table has grown by exactly two rows, in this order: the submitted message,
  with the key the store gave it and \<open>conversation_id\<close> set to the path's id whatever
  the body carried, its role, content and timestamp as submitted; then a row with role
  "assistant", the same conversation id and the text computed from the history that
  already holds the user's row. The conversation table is untouched. The response names
  these two rows, but only the assistant's object is loaded when the handler returns:
  the user's object was expired by the second commit and not refreshed, so the response
  that is sent carries the assistant row and no field of the user row.
\<close>

theorem create_message_returns_expired_user:
  assumes "create_message API_KEY client now cid message s = (Inr r, s', requests)"
  shows "\<exists>uid aid reply.
     user r = \<lparr>msg_id = Some uid, conversation_id = Some cid, role = role message,
        content = content message, created_at = created_at message\<rparr> \<and>
     assistant r = \<lparr>msg_id = Some aid, conversation_id = Some cid, role = ''assistant'',
        content = reply, created_at = now\<rparr> \<and>
     fst (call_llm API_KEY client
           (map llm_entry (select_history cid (s\<lparr>messages := messages s @ [user r]\<rparr>)))) = Some reply \<and>
     messages s' = messages s @ [user r, assistant r] \<and>
     conversations s' = conversations s \<and>
     session_get s cid \<noteq> None \<and>
     user_expired r \<and> \<not> assistant_expired r \<and>
     sent r = [(''user'', None), (''assistant'', Some (assistant r))]"
proof -
  from create_message_Inr [OF assms] obtain c s1 reply where
    ex: "session_get s cid = Some c" and
    u: "add_message (message\<lparr>conversation_id := Some cid\<rparr>) s = (Inr (user r), s1)" and
    l: "call_llm API_KEY client (map llm_entry (select_history cid s1)) = (Some reply, requests)" and
    a: "add_message \<lparr>msg_id = None, conversation_id = Some cid, role = ''assistant'',
                  content = reply, created_at = now\<rparr> s1 = (Inr (assistant r), s')" and
    flags: "user_expired r" "\<not> assistant_expired r"
    by blast
  from add_message_Inr [OF u] obtain uid where
    u1: "user r = \<lparr>msg_id = Some uid, conversation_id = Some cid, role = role message,
        content = content message, created_at = created_at message\<rparr>" and
    s1: "s1 = s\<lparr>messages := messages s @ [user r]\<rparr>"
    by (cases message) auto
  from add_message_Inr [OF a] obtain aid where
    a1: "assistant r = \<lparr>msg_id = Some aid, conversation_id = Some cid, role = ''assistant'',
                  content = reply, created_at = now\<rparr>" and
    s2: "s' = s1\<lparr>messages := messages s1 @ [assistant r]\<rparr>"
    by auto
  from l s1 have "fst (call_llm API_KEY client
      (map llm_entry (select_history cid (s\<lparr>messages := messages s @ [user r]\<rparr>)))) = Some reply"
    by simp
  moreover from flags have "sent r = [(''user'', None), (''assistant'', Some (assistant r))]"
    by (simp add: sent_def)
  ultimately show ?thesis using u1 a1 s1 s2 ex flags by simp
qed

text \<open>
  The body names conversation 99 and is posted to conversation 1: both rows are stored
  under conversation 1, and the response is sent with an empty "user".
\<close>

theorem create_message_returns_expired_user_witness:
  "create_message None (\<lambda>q. Returned demo_completion) 11 1 demo_message demo_store =
     (Inr \<lparr>user = \<lparr>msg_id = Some 1, conversation_id = Some 1, role = ''system'', content = ''Hi'', created_at = 10\<rparr>,
           assistant = \<lparr>msg_id = Some 2, conversation_id = Some 1, role = ''assistant'',
                        content = ''[LLM not configured]'', created_at = 11\<rparr>,
           user_expired = True, assistant_expired = False\<rparr>,
      \<lparr>conversations = [\<lparr>conv_id = Some 1, title = Some ''Trip''\<rparr>],
       messages = [\<lparr>msg_id = Some 1, conversation_id = Some 1, role = ''system'', content = ''Hi'', created_at = 10\<rparr>,
                   \<lparr>msg_id = Some 2, conversation_id = Some 1, role = ''assistant'',
                        content = ''[LLM not configured]'', created_at = 11\<rparr>]\<rparr>,
      []) \<and>
   sent \<lparr>user = \<lparr>msg_id = Some 1, conversation_id = Some 1, role = ''system'', content = ''Hi'', created_at = 10\<rparr>,
         assistant = \<lparr>msg_id = Some 2, conversation_id = Some 1, role = ''assistant'',
                        content = ''[LLM not configured]'', created_at = 11\<rparr>,
         user_expired = True, assistant_expired = False\<rparr> =
     [(''user'', None),
      (''assistant'', Some \<lparr>msg_id = Some 2, conversation_id = Some 1, role = ''assistant'',
                        content = ''[LLM not configured]'', created_at = 11\<rparr>)]"
  (is "?run \<and> ?sent")
proof -
  have run: ?run
    by (simp add: handler_defs demo_defs Let_def)
  from create_message_returns_expired_user [OF run] run show ?thesis
    by (simp add: sent_def demo_message_def)
qed

section \<open>History order\<close>



section \<open>Unknown conversations\<close>

text \<open>
  C3. When no row of the conversation table has the requested id, each of
  \<open>read_conversation\<close>, \<open>delete_conversation\<close>, \<open>read_conversation_messages\<close> and
  \<open>create_message\<close> raises \<open>HTTPException\<close> with status 404 and leaves the store as
  it was; \<open>create_message\<close> sends nothing to the LLM client either.
\<close>

theorem missing_conversation_404:
  assumes "Some cid \<notin> conv_id ` set (conversations s)"
  shows "read_conversation cid s = (Inl (HTTPException 404 ''Conversation not found''), s) \<and>
         delete_conversation policy cid s = (Inl (HTTPException 404 ''Conversation not found''), s) \<and>
         read_conversation_messages cid s = (Inl (HTTPException 404 ''Conversation not found''), s) \<and>
         create_message API_KEY client now cid message s =
           (Inl (HTTPException 404 ''Conversation not found''), s, [])"
  using session_get_None [OF assms]
  by (simp add: read_conversation_def delete_conversation_def read_conversation_messages_def
      create_message_def not_found_def)

text \<open>
  Conversation 7 does not exist in the sample store.
\<close>

theorem missing_conversation_404_witness:
  "Some 7 \<notin> conv_id ` set (conversations demo_store) \<and>
   read_conversation 7 demo_store = (Inl (HTTPException 404 ''Conversation not found''), demo_store) \<and>
   delete_conversation cascade_delete 7 demo_store = (Inl (HTTPException 404 ''Conversation not found''), demo_store) \<and>
   read_conversation_messages 7 demo_store = (Inl (HTTPException 404 ''Conversation not found''), demo_store) \<and>
   create_message (Some ''key'') (\<lambda>q. Raised ''down'') 11 7 demo_message demo_store =
     (Inl (HTTPException 404 ''Conversation not found''), demo_store, [])"
proof -
  have absent: "Some 7 \<notin> conv_id ` set (conversations demo_store)"
    by (simp add: demo_store_def)
  from missing_conversation_404 [OF absent] absent show ?thesis
    by simp
qed

section \<open>Roles in the outbound payload\<close>

text \<open>
  C4. When the key is configured and \<open>create_message\<close> succeeds, one request goes to
  the client; its messages are the entries of the conversation's history, which
  includes the row just stored. The entry of a row whose role is "user" or "assistant"
  carries that role, the entry of any other row carries "user", and the content is
  passed as it is. The stored rows are not rewritten: every history row is in the table
  afterwards, and the stored user row has the role the body supplied.
\<close>

theorem outbound_role_coerced:
  assumes run: "create_message API_KEY client now cid message s = (Inr r, s', requests)"
      and key: "truthy API_KEY"
  shows "\<exists>history.
           requests = [\<lparr>model = ''gemma3'', chat_messages = map llm_entry history\<rparr>] \<and>
           history = select_history cid (s\<lparr>messages := messages s @ [user r]\<rparr>) \<and>
           user r \<in> set history \<and>
           (\<forall>m \<in> set history.
              map_of (llm_entry m) ''role'' =
                Some (if role m = ''user'' \<or> role m = ''assistant'' then role m else ''user'') \<and>
              map_of (llm_entry m) ''content'' = Some (content m) \<and>
              m \<in> set (messages s')) \<and>
           role (user r) = role message \<and>
           messages s' = messages s @ [user r, assistant r]"
proof -
  from create_message_Inr [OF run] obtain c s1 reply where
    u: "add_message (message\<lparr>conversation_id := Some cid\<rparr>) s = (Inr (user r), s1)" and
    l: "call_llm API_KEY client (map llm_entry (select_history cid s1)) = (Some reply, requests)" and
    a: "add_message \<lparr>msg_id = None, conversation_id = Some cid, role = ''assistant'',
                  content = reply, created_at = now\<rparr> s1 = (Inr (assistant r), s')"
    by blast
  from add_message_Inr [OF u] obtain uid where
    u1: "user r = message\<lparr>conversation_id := Some cid, msg_id := Some uid\<rparr>" and
    s1: "s1 = s\<lparr>messages := messages s @ [user r]\<rparr>"
    by auto
  from add_message_Inr [OF a] have s2: "messages s' = messages s1 @ [assistant r]"
    by auto
  from call_llm_cases [OF l] key
  have q: "requests = [\<lparr>model = ''gemma3'', chat_messages = map llm_entry (select_history cid s1)\<rparr>]"
    by auto
  from u1 have "conversation_id (user r) = Some cid" by simp
  with s1 have mem: "user r \<in> set (select_history cid s1)"
    by (simp add: set_select_history)
  have sub: "\<forall>m \<in> set (select_history cid s1). m \<in> set (messages s')"
    using s2 by (auto simp: set_select_history)
  from u1 have "role (user r) = role message" by simp
  with q mem sub s1 s2 show ?thesis
    by (simp add: llm_entry_role llm_entry_content)
qed

text \<open>
  A body with role "system" posted to a conversation that has two rows already (and a
  store that has a row of another conversation): the row is stored with role "system",
  its entry in the request has role "user".
\<close>

theorem outbound_role_coerced_witness:
  "create_message (Some ''key'') (\<lambda>q. Raised ''down'') 11 1 demo_message demo_history =
     (Inr \<lparr>user = \<lparr>msg_id = Some 4, conversation_id = Some 1, role = ''system'', content = ''Hi'', created_at = 10\<rparr>,
           assistant = \<lparr>msg_id = Some 5, conversation_id = Some 1, role = ''assistant'',
                        content = ''[LLM error] down'', created_at = 11\<rparr>,
           user_expired = True, assistant_expired = False\<rparr>,
      \<lparr>conversations = [\<lparr>conv_id = Some 1, title = Some ''Trip''\<rparr>],
       messages = [\<lparr>msg_id = Some 1, conversation_id = Some 1, role = ''user'', content = ''Hi'', created_at = 3\<rparr>,
                   \<lparr>msg_id = Some 2, conversation_id = Some 1, role = ''assistant'', content = ''Hello'', created_at = 4\<rparr>,
                   \<lparr>msg_id = Some 3, conversation_id = Some 2, role = ''user'', content = ''Other'', created_at = 5\<rparr>,
                   \<lparr>msg_id = Some 4, conversation_id = Some 1, role = ''system'', content = ''Hi'', created_at = 10\<rparr>,
                   \<lparr>msg_id = Some 5, conversation_id = Some 1, role = ''assistant'',
                        content = ''[LLM error] down'', created_at = 11\<rparr>]\<rparr>,
      [\<lparr>model = ''gemma3'',
        chat_messages = [[(''role'', ''user''), (''content'', ''Hi'')],
                         [(''role'', ''assistant''), (''content'', ''Hello'')],
                         [(''role'', ''user''), (''content'', ''Hi'')]]\<rparr>]) \<and>
   truthy (Some ''key'') \<and>
   map_of (llm_entry \<lparr>msg_id = Some 4, conversation_id = Some 1, role = ''system'', content = ''Hi'',
                      created_at = 10\<rparr>) ''role'' = Some ''user''"
  (is "?run \<and> ?key \<and> ?entry")
proof -
  have run: ?run
    by (simp add: handler_defs demo_history_def demo_message_def Let_def)
  have key: ?key
    by (simp add: truthy_def)
  from outbound_role_coerced [OF run key] run key show ?thesis
    by (simp add: llm_entry_def llm_role_def demo_message_def)
qed

section \<open>No credential\<close>

text \<open>
  C5. When \<open>API_KEY\<close> is unset or empty, \<open>create_message\<close> sends no request to the
  client, whatever its outcome; when it returns a response, the assistant row it has
  appended has content "[LLM not configured]"; and it does return a response whenever
  the conversation exists and the body leaves the key to the store.
\<close>

theorem no_credential_no_call:
  assumes nokey: "\<not> truthy API_KEY"
      and run: "create_message API_KEY client now cid message s = (res, s', requests)"
  shows "requests = [] \<and>
         (\<forall>r. res = Inr r \<longrightarrow>
              content (assistant r) = ''[LLM not configured]'' \<and>
              messages s' = messages s @ [user r, assistant r]) \<and>
         (session_get s cid \<noteq> None \<and> msg_id message = None \<longrightarrow> (\<exists>r. res = Inr r))"
proof -
  from create_message_result [OF run] show ?thesis
  proof (elim disjE exE conjE, goal_cases)
    case 1
    then show ?case by simp
  next
    case (2 c)
    have "msg_id message \<noteq> None"
    proof
      assume "msg_id message = None"
      then have "msg_id (message\<lparr>conversation_id := Some cid\<rparr>) = None" by simp
      from add_message_fresh [OF this, of s] 2(2) show False by simp
    qed
    with 2 show ?case by simp
  next
    case (3 c u s1)
    from call_llm_cases [OF 3(3)] nokey show ?case
      by auto
  next
    case (4 c u s1 reply)
    from call_llm_cases [OF 4(3)] nokey have "reply = ''[LLM not configured]''" "requests = []"
      by auto
    moreover from add_message_Inr [OF 4(2)] have "messages s1 = messages s @ [u]"
      by auto
    ultimately show ?case using 4(4,5) by simp
  qed
qed

text \<open>
  An empty key counts as no key.
\<close>

theorem no_credential_no_call_witness:
  "\<not> truthy (Some []) \<and>
   create_message (Some []) (\<lambda>q. Returned demo_completion) 11 1 demo_message demo_store =
     (Inr \<lparr>user = \<lparr>msg_id = Some 1, conversation_id = Some 1, role = ''system'', content = ''Hi'', created_at = 10\<rparr>,
           assistant = \<lparr>msg_id = Some 2, conversation_id = Some 1, role = ''assistant'',
                        content = ''[LLM not configured]'', created_at = 11\<rparr>,
           user_expired = True, assistant_expired = False\<rparr>,
      \<lparr>conversations = [\<lparr>conv_id = Some 1, title = Some ''Trip''\<rparr>],
       messages = [\<lparr>msg_id = Some 1, conversation_id = Some 1, role = ''system'', content = ''Hi'', created_at = 10\<rparr>,
                   \<lparr>msg_id = Some 2, conversation_id = Some 1, role = ''assistant'',
                        content = ''[LLM not configured]'', created_at = 11\<rparr>]\<rparr>,
      []) \<and>
   session_get demo_store 1 \<noteq> None \<and> msg_id demo_message = None"
  (is "?nokey \<and> ?run \<and> ?here")
proof -
  have nokey: ?nokey
    by (simp add: truthy_def)
  have run: ?run
    by (simp add: handler_defs demo_defs Let_def)
  have here: ?here
    by (simp add: session_get_def demo_defs)
  from no_credential_no_call [OF nokey run] nokey run here show ?thesis
    by simp
qed

section \<open>Exceptions of the client\<close>

text \<open>
  C6. When a request made during \<open>create_message\<close> makes the client raise an
  exception with text \<open>e\<close>, the handler still returns a response and no error, and the
  assistant row it appends has role "assistant" and content "[LLM error] " followed by
  \<open>e\<close>.
\<close>

theorem llm_exception_becomes_reply:
  assumes run: "create_message API_KEY client now cid message s = (res, s', requests)"
      and called: "req \<in> set requests"
      and raised: "client req = Raised e"
  shows "\<exists>r. res = Inr r \<and>
             role (assistant r) = ''assistant'' \<and>
             content (assistant r) = ''[LLM error] '' @ e \<and>
             messages s' = messages s @ [user r, assistant r]"
proof -
  from create_message_requests [OF run called] obtain u s1 a where
    l: "call_llm API_KEY client (map llm_entry (select_history cid s1)) = (a, requests)" and
    r: "case a of
          None \<Rightarrow> res = Inl IntegrityError \<and> s' = s1
        | Some reply \<Rightarrow>
            (\<exists>r. res = Inr r \<and> user r = u \<and> role (assistant r) = ''assistant'' \<and>
                  content (assistant r) = reply \<and>
                  messages s' = messages s @ [user r, assistant r])"
    by blast
  from call_llm_cases [OF l] called raised have "a = Some (''[LLM error] '' @ e)"
    by auto
  with r show ?thesis
    by auto
qed

text \<open>
  The client times out.
\<close>

theorem llm_exception_becomes_reply_witness:
  "create_message (Some ''key'') (\<lambda>q. Raised ''timeout'') 11 1 demo_message demo_store =
     (Inr \<lparr>user = \<lparr>msg_id = Some 1, conversation_id = Some 1, role = ''system'', content = ''Hi'', created_at = 10\<rparr>,
           assistant = \<lparr>msg_id = Some 2, conversation_id = Some 1, role = ''assistant'',
                        content = ''[LLM error] timeout'', created_at = 11\<rparr>,
           user_expired = True, assistant_expired = False\<rparr>,
      \<lparr>conversations = [\<lparr>conv_id = Some 1, title = Some ''Trip''\<rparr>],
       messages = [\<lparr>msg_id = Some 1, conversation_id = Some 1, role = ''system'', content = ''Hi'', created_at = 10\<rparr>,
                   \<lparr>msg_id = Some 2, conversation_id = Some 1, role = ''assistant'',
                        content = ''[LLM error] timeout'', created_at = 11\<rparr>]\<rparr>,
      [\<lparr>model = ''gemma3'', chat_messages = [[(''role'', ''user''), (''content'', ''Hi'')]]\<rparr>]) \<and>
   \<lparr>model = ''gemma3'', chat_messages = [[(''role'', ''user''), (''content'', ''Hi'')]]\<rparr>
      \<in> set [\<lparr>model = ''gemma3'', chat_messages = [[(''role'', ''user''), (''content'', ''Hi'')]]\<rparr>] \<and>
   (\<lambda>q. Raised ''timeout'')
      \<lparr>model = ''gemma3'', chat_messages = [[(''role'', ''user''), (''content'', ''Hi'')]]\<rparr>
      = Raised ''timeout''"
  (is "?run \<and> ?called \<and> ?raised")
proof -
  have run: ?run
    by (simp add: handler_defs demo_defs Let_def)
  have called: ?called
    by simp
  have raised: ?raised
    by simp
  from llm_exception_becomes_reply [OF run called raised] run show ?thesis
    by simp
qed

section \<open>Default titles\<close>

text \<open>
  C7. When \<open>create_conversation\<close> returns a record, the record carries the id the
  store assigned and is the row appended to the conversation table. Its title is the
  supplied title unchanged when that is not empty; when the title is absent or empty, it
  is "Conversation " followed by the decimal numeral of that id: the digits that
  \<open>read_int\<close> reads back as the id, with no leading zero and a minus sign for a
  negative id.
\<close>

theorem default_title:
  assumes "create_conversation conversation s = (Inr c', s')"
  shows "\<exists>i numeral.
           conv_id c' = Some i \<and>
           read_int numeral = Some i \<and>
           title c' =
             Some (case title conversation of
                     None \<Rightarrow> ''Conversation '' @ numeral
                   | Some t \<Rightarrow> if t = [] then ''Conversation '' @ numeral else t) \<and>
           conversations s' = conversations s @ [c'] \<and>
           messages s' = messages s"
proof -
  obtain res s1 where a: "add_conversation conversation s = (res, s1)"
    by (cases "add_conversation conversation s")
  with assms obtain c1 where res: "res = Inr c1"
    by (cases res) (auto simp: create_conversation_def)
  from add_conversation_Inr [OF a [unfolded res]] obtain i where
    i: "conv_id c1 = Some i" and t: "title c1 = title conversation" and
    new: "Some i \<notin> conv_id ` set (conversations s)" and
    s1: "s1 = s\<lparr>conversations := conversations s @ [c1]\<rparr>"
    by blast
  have "conv_id c' = Some i \<and>
        title c' =
          Some (case title conversation of
                  None \<Rightarrow> ''Conversation '' @ str_int i
                | Some t \<Rightarrow> if t = [] then ''Conversation '' @ str_int i else t) \<and>
        conversations s' = conversations s @ [c'] \<and>
        messages s' = messages s"
  proof (cases "truthy (title conversation)")
    case True
    with assms a res t have "c' = c1" "s' = s1"
      by (simp_all add: create_conversation_def)
    with i t s1 True show ?thesis
      by (auto simp: truthy_def split: option.splits)
  next
    case False
    with assms a res t i
    have both: "c' = c1\<lparr>title := Some (''Conversation '' @ str_int i)\<rparr> \<and>
                s' = update_conversation (c1\<lparr>title := Some (''Conversation '' @ str_int i)\<rparr>) s1"
      by (auto simp: create_conversation_def Let_def format_id_def)
    then have c': "c' = c1\<lparr>title := Some (''Conversation '' @ str_int i)\<rparr>"
      and s': "s' = update_conversation c' s1"
      by blast+
    from c' i have ci: "conv_id c' = Some i" by simp
    from s' s1 ci update_last_row [OF new i, of c']
    have "conversations s' = conversations s @ [c']" "messages s' = messages s"
      by (simp_all add: update_conversation_def)
    with c' ci False show ?thesis
      by (auto simp: truthy_def split: option.splits)
  qed
  with read_int_str_int [of i] show ?thesis
    by blast
qed

text \<open>
  No title gives "Conversation 2" for the second conversation and the title "Trip" is
  kept; an empty title after conversation 1204 gives "Conversation 1205"; a body that
  brings the id -30 gets "Conversation -30".
\<close>

theorem default_title_witness:
  "create_conversation \<lparr>conv_id = None, title = None\<rparr> demo_store =
     (Inr \<lparr>conv_id = Some 2, title = Some ''Conversation 2''\<rparr>,
      \<lparr>conversations = [\<lparr>conv_id = Some 1, title = Some ''Trip''\<rparr>,
                        \<lparr>conv_id = Some 2, title = Some ''Conversation 2''\<rparr>],
       messages = []\<rparr>) \<and>
   create_conversation \<lparr>conv_id = None, title = Some ''Trip''\<rparr> demo_store =
     (Inr \<lparr>conv_id = Some 2, title = Some ''Trip''\<rparr>,
      \<lparr>conversations = [\<lparr>conv_id = Some 1, title = Some ''Trip''\<rparr>,
                        \<lparr>conv_id = Some 2, title = Some ''Trip''\<rparr>],
       messages = []\<rparr>) \<and>
   create_conversation \<lparr>conv_id = None, title = Some []\<rparr> demo_busy =
     (Inr \<lparr>conv_id = Some 1205, title = Some ''Conversation 1205''\<rparr>,
      \<lparr>conversations = [\<lparr>conv_id = Some 9, title = Some ''Nine''\<rparr>,
                        \<lparr>conv_id = Some 1204, title = Some ''Old''\<rparr>,
                        \<lparr>conv_id = Some 1205, title = Some ''Conversation 1205''\<rparr>],
       messages = []\<rparr>) \<and>
   create_conversation \<lparr>conv_id = Some (- 30), title = None\<rparr> demo_busy =
     (Inr \<lparr>conv_id = Some (- 30), title = Some ''Conversation -30''\<rparr>,
      \<lparr>conversations = [\<lparr>conv_id = Some 9, title = Some ''Nine''\<rparr>,
                        \<lparr>conv_id = Some 1204, title = Some ''Old''\<rparr>,
                        \<lparr>conv_id = Some (- 30), title = Some ''Conversation -30''\<rparr>],
       messages = []\<rparr>) \<and>
   read_int ''2'' = Some 2 \<and> read_int ''1205'' = Some 1205 \<and> read_int ''-30'' = Some (- 30)"
  (is "?absent \<and> ?given \<and> ?empty \<and> ?negative \<and> ?two \<and> ?many \<and> ?minus")
proof -
  have absent: ?absent
    by (simp add: create_conversation_def add_conversation_def update_conversation_def
        fresh_id_def truthy_def format_id_def str_int_def str_nat.simps digit_char_def demo_store_def Let_def)
  have given: ?given
    by (simp add: create_conversation_def add_conversation_def update_conversation_def
        fresh_id_def truthy_def demo_store_def Let_def)
  have empty: ?empty
    by (simp add: create_conversation_def add_conversation_def update_conversation_def
        fresh_id_def truthy_def format_id_def str_int_def str_nat.simps digit_char_def demo_busy_def Let_def)
  have negative: ?negative
    by (simp add: create_conversation_def add_conversation_def update_conversation_def
        fresh_id_def truthy_def format_id_def str_int_def str_nat.simps digit_char_def demo_busy_def Let_def)
  have reads: "?two \<and> ?many \<and> ?minus"
    by (simp add: read_int_def read_nat_def digit_value_def)
  from default_title [OF absent] default_title [OF given] default_title [OF empty]
       default_title [OF negative] absent given empty negative reads
  show ?thesis
    by simp
qed

section \<open>Reading the reply out of the response\<close>

text \<open>
  C8. When a request made during \<open>create_message\<close> returns a response object, the
  handler reads the content by attribute access if that access does not raise, else by
  item access if that does not raise, else takes \<^verbatim>\<open>str(resp)\<close>. When what it reads
  is a text, that text is the content of the assistant row and a response is returned.
  When what it reads is \<^verbatim>\<open>None\<close>, there is no fall-through and no text: the handler
  raises, and the user row it had committed is the only row added.
\<close>

theorem reply_extraction_tiers:
  assumes run: "create_message API_KEY client now cid message s = (res, s', requests)"
      and called: "req \<in> set requests"
      and returned: "client req = Returned resp"
  shows "case (case by_attribute resp of
                 Gives v \<Rightarrow> v
               | Fails \<Rightarrow> (case by_item resp of Gives v \<Rightarrow> v | Fails \<Rightarrow> Some (as_str resp))) of
           Some reply \<Rightarrow>
             (\<exists>r. res = Inr r \<and> content (assistant r) = reply \<and>
                   messages s' = messages s @ [user r, assistant r])
         | None \<Rightarrow>
             res = Inl IntegrityError \<and>
             (\<exists>u. messages s' = messages s @ [u] \<and>
                   role u = role message \<and> content u = content message)"
proof -
  from create_message_requests [OF run called] obtain u s1 a where
    rows: "messages s1 = messages s @ [u]" "role u = role message" "content u = content message" and
    l: "call_llm API_KEY client (map llm_entry (select_history cid s1)) = (a, requests)" and
    r: "case a of
          None \<Rightarrow> res = Inl IntegrityError \<and> s' = s1
        | Some reply \<Rightarrow>
            (\<exists>r. res = Inr r \<and> user r = u \<and> role (assistant r) = ''assistant'' \<and>
                  content (assistant r) = reply \<and>
                  messages s' = messages s @ [user r, assistant r])"
    by blast
  from call_llm_cases [OF l] called returned have a: "extract_text resp = a"
    by auto
  show ?thesis
    unfolding extract_text_def [symmetric] a
    using r rows by (cases a) auto
qed

text \<open>
  A response whose content is \<^verbatim>\<open>None\<close> under attribute access: the item access is
  never tried, the request fails and the table holds the user row alone. On the other
  sample response attribute access raises and item access gives "Hello".
\<close>

theorem reply_extraction_tiers_witness:
  "create_message (Some ''key'') (\<lambda>q. Returned demo_no_content) 11 1 demo_message demo_store =
     (Inl IntegrityError,
      \<lparr>conversations = [\<lparr>conv_id = Some 1, title = Some ''Trip''\<rparr>],
       messages = [\<lparr>msg_id = Some 1, conversation_id = Some 1, role = ''system'', content = ''Hi'', created_at = 10\<rparr>]\<rparr>,
      [\<lparr>model = ''gemma3'', chat_messages = [[(''role'', ''user''), (''content'', ''Hi'')]]\<rparr>]) \<and>
   \<lparr>model = ''gemma3'', chat_messages = [[(''role'', ''user''), (''content'', ''Hi'')]]\<rparr>
      \<in> set [\<lparr>model = ''gemma3'', chat_messages = [[(''role'', ''user''), (''content'', ''Hi'')]]\<rparr>] \<and>
   (\<lambda>q. Returned demo_no_content)
      \<lparr>model = ''gemma3'', chat_messages = [[(''role'', ''user''), (''content'', ''Hi'')]]\<rparr>
      = Returned demo_no_content \<and>
   by_attribute demo_no_content = Gives None \<and>
   create_message (Some ''key'') (\<lambda>q. Returned demo_completion) 11 1 demo_message demo_store =
     (Inr \<lparr>user = \<lparr>msg_id = Some 1, conversation_id = Some 1, role = ''system'', content = ''Hi'', created_at = 10\<rparr>,
           assistant = \<lparr>msg_id = Some 2, conversation_id = Some 1, role = ''assistant'',
                        content = ''Hello'', created_at = 11\<rparr>,
           user_expired = True, assistant_expired = False\<rparr>,
      \<lparr>conversations = [\<lparr>conv_id = Some 1, title = Some ''Trip''\<rparr>],
       messages = [\<lparr>msg_id = Some 1, conversation_id = Some 1, role = ''system'', content = ''Hi'', created_at = 10\<rparr>,
                   \<lparr>msg_id = Some 2, conversation_id = Some 1, role = ''assistant'',
                        content = ''Hello'', created_at = 11\<rparr>]\<rparr>,
      [\<lparr>model = ''gemma3'', chat_messages = [[(''role'', ''user''), (''content'', ''Hi'')]]\<rparr>]) \<and>
   by_attribute demo_completion = Fails \<and> by_item demo_completion = Gives (Some ''Hello'')"
  (is "?fail \<and> ?called \<and> ?returned \<and> ?none \<and> ?run \<and> ?tiers")
proof -
  have fail: ?fail
    by (simp add: handler_defs demo_defs Let_def)
  have called: ?called
    by simp
  have returned: ?returned
    by simp
  have run: ?run
    by (simp add: handler_defs demo_defs Let_def)
  have returned': "(\<lambda>q. Returned demo_completion)
      \<lparr>model = ''gemma3'', chat_messages = [[(''role'', ''user''), (''content'', ''Hi'')]]\<rparr>
      = Returned demo_completion"
    by simp
  from reply_extraction_tiers [OF fail called returned]
       reply_extraction_tiers [OF run called returned'] fail run
  show ?thesis
    by (simp add: demo_defs)
qed

section \<open>Deleting a conversation\<close>

text \<open>
  C9. For an existing conversation \<open>delete_conversation\<close> returns \<^verbatim>\<open>{"ok": True}\<close>,
  removes the conversation's row and no other conversation, and does to the message
  table exactly what the store's cascade policy does: with no policy every message,
  those of the deleted conversation included, is still in the store. Afterwards the
  conversation cannot be fetched.
\<close>

theorem delete_conversation_only:
  assumes "Some cid \<in> conv_id ` set (conversations s)"
  shows "delete_conversation policy cid s =
           (Inr [(''ok'', True)],
            \<lparr>conversations = filter (\<lambda>c. conv_id c \<noteq> Some cid) (conversations s),
             messages = policy cid (messages s)\<rparr>) \<and>
         messages (snd (delete_conversation no_cascade cid s)) = messages s \<and>
         session_get (snd (delete_conversation policy cid s)) cid = None"
proof -
  from session_get_Some [OF assms] obtain c where "session_get s cid = Some c" ..
  then have "\<And>p. delete_conversation p cid s = (Inr [(''ok'', True)], session_delete p cid s)"
    by (simp add: delete_conversation_def)
  then show ?thesis
    by (simp add: session_get_deleted) (simp add: session_delete_def no_cascade_def)
qed

text \<open>
  Without a policy the two messages of conversation 1 outlive it; with a cascading
  policy they go.
\<close>

theorem delete_conversation_only_witness:
  "Some 1 \<in> conv_id ` set (conversations demo_history) \<and>
   delete_conversation no_cascade 1 demo_history =
     (Inr [(''ok'', True)],
      \<lparr>conversations = [],
       messages = [\<lparr>msg_id = Some 1, conversation_id = Some 1, role = ''user'', content = ''Hi'', created_at = 3\<rparr>,
                   \<lparr>msg_id = Some 2, conversation_id = Some 1, role = ''assistant'', content = ''Hello'', created_at = 4\<rparr>,
                   \<lparr>msg_id = Some 3, conversation_id = Some 2, role = ''user'', content = ''Other'', created_at = 5\<rparr>]\<rparr>) \<and>
   delete_conversation cascade_delete 1 demo_history =
     (Inr [(''ok'', True)],
      \<lparr>conversations = [],
       messages = [\<lparr>msg_id = Some 3, conversation_id = Some 2, role = ''user'', content = ''Other'', created_at = 5\<rparr>]\<rparr>)"
proof -
  have present: "Some 1 \<in> conv_id ` set (conversations demo_history)"
    by (simp add: demo_history_def)
  from delete_conversation_only [OF present, of no_cascade]
       delete_conversation_only [OF present, of cascade_delete] present
  show ?thesis
    by (simp add: demo_history_def no_cascade_def cascade_delete_def)
qed

section \<open>Listing conversations\<close>

text \<open>
  C10. A missing \<open>offset\<close> is 0 and a missing \<open>limit\<close> is 100. With neither,
  \<open>read_conversations\<close> returns the first 100 rows of the conversation table, or all of
  them when there are fewer, and never more than 100.
\<close>

theorem read_conversations_defaults:
  "read_conversations None None s = read_conversations (Some 0) (Some 100) s \<and>
   read_conversations (Some off) None s = read_conversations (Some off) (Some 100) s \<and>
   read_conversations None (Some lim) s = read_conversations (Some 0) (Some lim) s \<and>
   read_conversations None None s = (Inr (take 100 (conversations s)), s) \<and>
   (\<exists>cs. fst (read_conversations None None s) = Inr cs \<and>
         length cs = min 100 (length (conversations s)))"
  by (simp add: read_conversations_def offset_limit_def Let_def)

end
